theory Spec2Isabelle
  imports Main
begin

section \<open>Style sheets of styled components\<close>

text \<open>
  The theme is a JavaScript object from role names to colour strings; reading a key that
  is not there gives \<^verbatim>\<open>undefined\<close>, here \<open>None\<close>. A styled component receives it as
  \<^verbatim>\<open>props.theme\<close>.
\<close>

type_synonym theme = "string \<rightharpoonup> string"

record styled_props =
  theme :: theme

text \<open>
  A value in a style template is either literal text or an interpolated function of the
  props, \<^verbatim>\<open>${(props) => ...}\<close>. A JavaScript function may write to the object it is
  given, so an interpolation returns the props next to its result.
\<close>

datatype css_value =
  Lit string
| Interp "styled_props \<Rightarrow> string option \<times> styled_props"

text \<open>
  A template is a sequence of declarations \<^verbatim>\<open>property: value;\<close> and of nested
  \<^verbatim>\<open>&:hover { ... }\<close> blocks, in the order they are written.
\<close>

datatype css_item =
  Decl string css_value
| Hover "(string \<times> css_value) list"

text \<open>
  \<^verbatim>\<open>styled(Base)`...`\<close> gives a component whose styles are those of \<open>Base\<close>
  followed by its own.
\<close>

definition styled :: "css_item list \<Rightarrow> css_item list \<Rightarrow> css_item list" where
  "styled base_styles own_styles = base_styles @ own_styles"

subsection \<open>Buttons.js\<close>

definition Button :: "css_item list" where
  "Button =
    [Decl ''padding'' (Lit ''12px 24px''),
     Decl ''font-size'' (Lit ''1rem''),
     Decl ''border-radius'' (Lit ''2px''),
     Decl ''min-width'' (Lit ''100px''),
     Decl ''cursor'' (Lit ''pointer''),
     Decl ''font-family'' (Lit [CHR 0x27, CHR ''M'', CHR ''e'', CHR ''n'', CHR ''l'', CHR ''o'',
        CHR 0x27, CHR '','', CHR '' '', CHR ''m'', CHR ''o'', CHR ''n'', CHR ''o'', CHR ''s'',
        CHR ''p'', CHR ''a'', CHR ''c'', CHR ''e''])]"

definition PrimaryButton :: "css_item list" where
  "PrimaryButton = styled Button
    [Decl ''background-color'' (Lit ''red''),
     Decl ''border'' (Lit ''none''),
     Decl ''color'' (Lit ''white'')]"

definition SecondaryButton :: "css_item list" where
  "SecondaryButton = styled Button
    [Decl ''background'' (Lit ''none''),
     Decl ''border'' (Lit ''1px solid black''),
     Decl ''color'' (Lit ''white''),
     Decl ''color'' (Lit ''black''),
     Decl ''transition'' (Lit ''background-color 0.2s linear, color 0.2s linear''),
     Hover [(''background-color'', Lit ''red''), (''color'', Lit ''white'')]]"

subsection \<open>The styled components of Modals.js\<close>

definition ModalWrapper :: "css_item list" where
  "ModalWrapper =
    [Decl ''width'' (Lit ''800px''),
     Decl ''height'' (Lit ''550px''),
     Decl ''box-shadow'' (Lit ''0 5px 16px rgba(0, 0, 0, 0.2)''),
     Decl ''background-color'' (Interp (\<lambda>props. (theme props ''modalBg'', props))),
     Decl ''color'' (Interp (\<lambda>props. (theme props ''text'', props))),
     Decl ''display'' (Lit ''flex''),
     Decl ''flex-direction'' (Lit ''column''),
     Decl ''justify-content'' (Lit ''center''),
     Decl ''align-items'' (Lit ''center''),
     Decl ''position'' (Lit ''relative''),
     Decl ''border-radius'' (Lit ''2px''),
     Decl ''font-family'' (Lit [CHR 0x27, CHR ''M'', CHR ''e'', CHR ''n'', CHR ''l'', CHR ''o'',
        CHR 0x27, CHR '','', CHR '' '', CHR ''m'', CHR ''o'', CHR ''n'', CHR ''o'', CHR ''s'',
        CHR ''p'', CHR ''a'', CHR ''c'', CHR ''e''])]"

definition SignUpHeader :: "css_item list" where
  "SignUpHeader =
    [Decl ''font-size'' (Lit ''2rem''),
     Decl ''margin-bottom'' (Lit ''0'')]"

definition SignUpText :: "css_item list" where
  "SignUpText =
    [Decl ''font-size'' (Lit ''1rem''),
     Decl ''max-width'' (Lit ''70%''),
     Decl ''text-align'' (Lit ''center'')]"

definition CloseModalButton :: "css_item list" where
  "CloseModalButton =
    [Decl ''cursor'' (Lit ''pointer''),
     Decl ''background'' (Lit ''none''),
     Decl ''border'' (Lit ''none''),
     Decl ''position'' (Lit ''absolute''),
     Decl ''right'' (Lit ''40px''),
     Decl ''top'' (Lit ''40px''),
     Decl ''width'' (Lit ''24px''),
     Decl ''height'' (Lit ''24px''),
     Decl ''padding'' (Lit ''0'')]"

subsection \<open>From a template to the declarations in force\<close>

text \<open>
  The text of a rule's body is read as CSS reads it: declarations end at \<^verbatim>\<open>;\<close>, the
  first \<^verbatim>\<open>:\<close> of a declaration parts its property from its value, blanks around
  either are dropped, and a piece with no property or no value declares nothing.
\<close>

fun split_on :: "char \<Rightarrow> string \<Rightarrow> string list" where
  "split_on c [] = [[]]"
| "split_on c (x # xs) =
     (if x = c then [] # split_on c xs
      else (case split_on c xs of [] \<Rightarrow> [[x]] | w # ws \<Rightarrow> (x # w) # ws))"

definition blank :: "char \<Rightarrow> bool" where
  "blank c = (c = CHR '' '' \<or> c = CHR 0x09 \<or> c = CHR 0x0A \<or> c = CHR 0x0D)"

definition trim :: "string \<Rightarrow> string" where
  "trim s = rev (dropWhile blank (rev (dropWhile blank s)))"

definition declaration_of :: "string \<Rightarrow> (string \<times> string) list" where
  "declaration_of piece =
     (let property = trim (takeWhile (\<lambda>c. c \<noteq> CHR '':'') piece);
          val = trim (drop 1 (dropWhile (\<lambda>c. c \<noteq> CHR '':'') piece))
      in if property = [] \<or> val = [] then [] else [(property, val)])"

definition declarations_of :: "string \<Rightarrow> (string \<times> string) list" where
  "declarations_of body = concat (map declaration_of (split_on CHR '';'' body))"

text \<open>
  A declaration of the template with a literal value is the declaration as written. An
  interpolated function is called with the props and its result is pasted into the text
  after the property, \<^verbatim>\<open>undefined\<close> as the empty string; what the rule declares there
  is read off the pasted text. So a result of \<^verbatim>\<open>undefined\<close> leaves no declaration,
  and a result with a \<^verbatim>\<open>;\<close> in it leaves more than one.
\<close>

fun eval_declaration ::
  "string \<Rightarrow> css_value \<Rightarrow> styled_props \<Rightarrow> (string \<times> string) list \<times> styled_props"
where
  "eval_declaration k (Lit s) p = ([(k, s)], p)"
| "eval_declaration k (Interp f) p =
     (case f p of
        (None, p') \<Rightarrow> (declarations_of (k @ '': ''), p')
      | (Some s, p') \<Rightarrow> (declarations_of (k @ '': '' @ s), p'))"

fun eval_decls ::
  "(string \<times> css_value) list \<Rightarrow> styled_props \<Rightarrow> (string \<times> string) list \<times> styled_props"
where
  "eval_decls [] p = ([], p)"
| "eval_decls ((k, v) # ds) p =
     (case eval_declaration k v p of (here, p1) \<Rightarrow>
        (case eval_decls ds p1 of (rest, p2) \<Rightarrow> (here @ rest, p2)))"

text \<open>
  The serialised styles of a component: the declarations of the element itself, those of
  its \<^verbatim>\<open>:hover\<close> rule, and the props as the interpolations left them.
\<close>

record css_rules =
  plain :: "(string \<times> string) list"
  on_hover :: "(string \<times> string) list"

fun serializeStyles :: "css_item list \<Rightarrow> styled_props \<Rightarrow> css_rules \<times> styled_props" where
  "serializeStyles [] p = (\<lparr>plain = [], on_hover = []\<rparr>, p)"
| "serializeStyles (Decl k v # items) p =
     (case eval_declaration k v p of (here, p1) \<Rightarrow>
        (case serializeStyles items p1 of (r, p2) \<Rightarrow> (r\<lparr>plain := here @ plain r\<rparr>, p2)))"
| "serializeStyles (Hover ds # items) p =
     (case eval_decls ds p of (hs, p1) \<Rightarrow>
        (case serializeStyles items p1 of (r, p2) \<Rightarrow> (r\<lparr>on_hover := hs @ on_hover r\<rparr>, p2)))"

text \<open>
  The declarations that apply to the element at rest, and while the pointer is over it:
  the \<^verbatim>\<open>:hover\<close> rule is the more specific one, so its declarations come last.
\<close>

definition resting :: "css_item list \<Rightarrow> theme \<Rightarrow> (string \<times> string) list" where
  "resting c th = plain (fst (serializeStyles c \<lparr>theme = th\<rparr>))"

definition hovered :: "css_item list \<Rightarrow> theme \<Rightarrow> (string \<times> string) list" where
  "hovered c th =
     (let r = fst (serializeStyles c \<lparr>theme = th\<rparr>) in plain r @ on_hover r)"

text \<open>Of several declarations of one property the last one is in force.\<close>

definition css_get :: "string \<Rightarrow> (string \<times> string) list \<Rightarrow> string option" where
  "css_get k ds = map_of (rev ds) k"

text \<open>All the values declared for a property, in the order they are written.\<close>

definition css_declared :: "string \<Rightarrow> (string \<times> string) list \<Rightarrow> string list" where
  "css_declared k ds = map snd (filter (\<lambda>d. fst d = k) ds)"

text \<open>
  A \<^verbatim>\<open>transition\<close> value is a comma-separated list of transitions, each of them the
  words property, duration and timing function.
\<close>

definition transitions :: "string \<Rightarrow> string list list" where
  "transitions v =
     map (\<lambda>t. filter (\<lambda>w. w \<noteq> []) (split_on CHR '' '' t)) (split_on CHR '','' v)"

subsection \<open>The two themes of the lesson\<close>

definition themeLight :: theme where
  "themeLight = map_of
    [(''text'', ''#000''),
     (''background'', ''#fff''),
     (''modalBg'', ''#fff''),
     (''buttonText'', ''#000''),
     (''buttonTextHover'', ''#fff''),
     (''buttonBorder'', ''#000''),
     (''buttonBg'', ''rgba(0, 0, 0, 0)''),
     (''buttonBgHover'', ''rgba(0, 0, 0, 1)'')]"

definition themeDark :: theme where
  "themeDark = map_of
    [(''text'', ''#fff''),
     (''background'', ''#121212''),
     (''modalBg'', ''#202023''),
     (''buttonText'', ''#fff''),
     (''buttonTextHover'', ''#000''),
     (''buttonBorder'', ''#fff''),
     (''buttonBg'', ''rgba(255, 255, 255, 0)''),
     (''buttonBgHover'', ''rgba(255, 255, 255, 1)'')]"

section \<open>The sign-up modal\<close>

text \<open>
  The object handed to \<^verbatim>\<open>useSpring\<close>: the values the animation moves to. The hook
  belongs to the animation library; \<open>useSpring\<close> is the hook at the values it is asked to
  reach, and what it shows on the way there is \<open>useSpring_hook\<close> below.
\<close>

record spring_values =
  opacity :: int
  transform :: string

definition useSpring :: "spring_values \<Rightarrow> spring_values" where
  "useSpring target = target"

text \<open>
  Calling a property that holds no function raises a \<^verbatim>\<open>TypeError\<close>.
\<close>

datatype error = TypeError string

text \<open>
  The props of the modal: the flag and the setter the parent passes. The parent's state is
  any type \<open>'w\<close>; a callback takes its argument and that state, and returns the new state
  or the error it raised. A prop the caller leaves out is \<open>None\<close>.
\<close>

record 'w props =
  showModal :: bool
  setShowModal :: "(bool \<Rightarrow> 'w \<Rightarrow> error + 'w) option"

datatype 'w element =
  Element
    (component: string)
    (css: "css_item list")
    (attrs: "(string \<times> string) list")
    (style: "spring_values option")
    (onClick: "('w \<Rightarrow> error + 'w) option")
    (children: "'w element list")
| Text string

text \<open>The close button's handler, \<^verbatim>\<open>() => props.setShowModal(false)\<close>.\<close>

definition closeOnClick :: "'w props \<Rightarrow> 'w \<Rightarrow> error + 'w" where
  "closeOnClick props w =
    (case setShowModal props of
       None \<Rightarrow> Inl (TypeError ''props.setShowModal is not a function'')
     | Some f \<Rightarrow> f False w)"

definition SignUpModal :: "'w props \<Rightarrow> 'w element" where
  "SignUpModal props =
    (let animation = useSpring
       \<lparr>opacity = (if showModal props then 1 else 0),
        transform = (if showModal props then ''translateY(0)'' else ''translateY(-200%)'')\<rparr>
     in Element ''ModalWrapper'' ModalWrapper [] (Some animation) None
       [Element ''img'' [] [(''src'', ''../assets/signup.svg''), (''alt'', ''Sign Up!'')]
          None None [],
        Element ''SignUpHeader'' SignUpHeader [] None None [Text ''Sign Up!''],
        Element ''SignUpText'' SignUpText [] None None
          [Text ''Sign up today to get access to cool things!''],
        Element ''PrimaryButton'' PrimaryButton [] None None [Text ''Submit''],
        Element ''CloseModalButton'' CloseModalButton [] None (Some (closeOnClick props))
          [Element ''img'' [] [(''src'', ''../assets/close-icon.svg''), (''alt'', ''Close'')]
             None None []]])"

subsection \<open>Activating the close control\<close>

text \<open>A click runs the element's handler, if it has one.\<close>

fun click :: "'w element \<Rightarrow> 'w \<Rightarrow> error + 'w" where
  "click (Element c s a st h cs) w = (case h of None \<Rightarrow> Inr w | Some handler \<Rightarrow> handler w)"
| "click (Text t) w = Inr w"

fun is_component :: "string \<Rightarrow> 'w element \<Rightarrow> bool" where
  "is_component n (Element c s a st h cs) = (c = n)"
| "is_component n (Text t) = False"

fun child_elements :: "'w element \<Rightarrow> 'w element list" where
  "child_elements (Element c s a st h cs) = cs"
| "child_elements (Text t) = []"

text \<open>The close control of a rendered modal is its \<^verbatim>\<open>CloseModalButton\<close> child.\<close>

definition activate_close :: "'w element \<Rightarrow> 'w \<Rightarrow> error + 'w" where
  "activate_close m w =
     (case filter (is_component ''CloseModalButton'') (child_elements m) of
        [c] \<Rightarrow> click c w
      | _ \<Rightarrow> Inr w)"

text \<open>
  A run of activations, one for each render of the modal; \<open>bs\<close> are the values of the
  flag at these renders. An error ends the run.
\<close>

fun activations :: "bool list \<Rightarrow> 'w props \<Rightarrow> 'w \<Rightarrow> error + 'w" where
  "activations [] props w = Inr w"
| "activations (b # bs) props w =
     (case activate_close (SignUpModal (props\<lparr>showModal := b\<rparr>)) w of
        Inl e \<Rightarrow> Inl e
      | Inr w' \<Rightarrow> activations bs props w')"

text \<open>A callback that only records the arguments it is called with.\<close>

definition recording :: "bool \<Rightarrow> bool list \<Rightarrow> error + bool list" where
  "recording arg calls = Inr (calls @ [arg])"

subsection \<open>What the animation hook remembers\<close>

text \<open>
  \<^verbatim>\<open>useSpring\<close> keeps, from one render of the component to the next, the values
  it is showing. These are the values of some target when the spring is at rest, and values
  of the animation library's own, of any type \<open>'c\<close>, while it moves.
\<close>

datatype 'c position = At spring_values | Between 'c

text \<open>
  The animated style of a render: the values shown and the values moved to. At the first
  render the hook remembers nothing and starts at the target; at a later one it shows what
  it holds, and moves to the new target.
\<close>

record 'c spring =
  current :: "'c position"
  goal :: spring_values

definition useSpring_hook :: "spring_values \<Rightarrow> 'c position option \<Rightarrow> 'c spring" where
  "useSpring_hook target held =
     (case held of
        None \<Rightarrow> \<lparr>current = At target, goal = target\<rparr>
      | Some pos \<Rightarrow> \<lparr>current = pos, goal = target\<rparr>)"

text \<open>The \<^verbatim>\<open>animation\<close> of \<^verbatim>\<open>SignUpModal\<close>, given what the hook holds.\<close>

definition animation :: "'w props \<Rightarrow> 'c position option \<Rightarrow> 'c spring" where
  "animation props held = useSpring_hook
     \<lparr>opacity = (if showModal props then 1 else 0),
      transform = (if showModal props then ''translateY(0)'' else ''translateY(-200%)'')\<rparr>
     held"

section \<open>Animation target\<close>

text \<open>
  C1. For either value of the visibility flag the modal's animation target is fixed by it:
  shown, opacity 1 and \<^verbatim>\<open>translateY(0)\<close>; hidden, opacity 0 and
  \<^verbatim>\<open>translateY(-200%)\<close>.
\<close>

theorem animation_target_by_flag:
  "style (SignUpModal (props\<lparr>showModal := True\<rparr>))
     = Some \<lparr>opacity = 1, transform = ''translateY(0)''\<rparr>
   \<and> style (SignUpModal (props\<lparr>showModal := False\<rparr>))
     = Some \<lparr>opacity = 0, transform = ''translateY(-200%)''\<rparr>"
  by (simp add: SignUpModal_def useSpring_def)

section \<open>The close control\<close>

lemma closeOnClick_showModal_update:
  "closeOnClick (props\<lparr>showModal := b\<rparr>) = closeOnClick props"
  by (rule ext) (simp add: closeOnClick_def)

lemma activate_close_SignUpModal:
  "activate_close (SignUpModal props) w = closeOnClick props w"
  by (simp add: activate_close_def SignUpModal_def)

lemma activations_recording:
  "activations bs (props\<lparr>setShowModal := Some recording\<rparr>) calls
     = Inr (calls @ replicate (length bs) False)"
proof (induction bs arbitrary: calls)
  case Nil
  show ?case by simp
next
  case (Cons b bs)
  have step: "activate_close (SignUpModal (props\<lparr>setShowModal := Some recording, showModal := b\<rparr>)) calls
      = Inr (calls @ [False])"
    by (simp add: activate_close_SignUpModal closeOnClick_def recording_def)
  from step Cons.IH [of "calls @ [False]"] show ?case
    by (simp add: replicate_app_Cons_same)
qed

text \<open>
  C2. Activating the close control calls the supplied callback once, with \<open>False\<close>, and
  does nothing else: the state after the activation is the one the callback returns; over
  any run of activations a callback that records its calls has recorded one \<open>False\<close> for
  each; and with a callback that leaves the state alone the state stays as it was.
\<close>

theorem close_calls_callback_once_with_false:
  "activate_close (SignUpModal (props\<lparr>setShowModal := Some f\<rparr>)) w = f False w
   \<and> activations bs (props'\<lparr>setShowModal := Some recording\<rparr>) calls
       = Inr (calls @ replicate (length bs) False)
   \<and> activate_close (SignUpModal (props\<lparr>setShowModal := Some (\<lambda>arg. Inr)\<rparr>)) w = Inr w"
  by (simp add: activate_close_SignUpModal closeOnClick_def activations_recording)

text \<open>
  C3, as the code has it. The handler calls \<^verbatim>\<open>props.setShowModal\<close> without looking
  whether it is there: rendering the modal without the callback gives the same close
  control, and activating it raises a \<^verbatim>\<open>TypeError\<close>, whatever the flag and the state.
\<close>

theorem close_without_callback_raises:
  "activate_close (SignUpModal (props\<lparr>setShowModal := None\<rparr>)) w
     = Inl (TypeError ''props.setShowModal is not a function'')
   \<and> map (is_component ''CloseModalButton'')
         (child_elements (SignUpModal (props\<lparr>setShowModal := None\<rparr>)))
       = [False, False, False, False, True]"
proof
  show "activate_close (SignUpModal (props\<lparr>setShowModal := None\<rparr>)) w
     = Inl (TypeError ''props.setShowModal is not a function'')"
    by (simp add: activate_close_SignUpModal closeOnClick_def)
next
  show "map (is_component ''CloseModalButton'')
         (child_elements (SignUpModal (props\<lparr>setShowModal := None\<rparr>)))
       = [False, False, False, False, True]"
    by (simp add: SignUpModal_def)
qed

text \<open>
  The claim fails for a modal shown without a callback, over a parent whose flag is set:
  the activation ends in the error and not in the unchanged state.
\<close>

theorem close_without_callback_counterexample:
  "activate_close (SignUpModal \<lparr>showModal = True, setShowModal = None\<rparr>) True
     = Inl (TypeError ''props.setShowModal is not a function'')
   \<and> activate_close (SignUpModal \<lparr>showModal = True, setShowModal = None\<rparr>) True \<noteq> Inr True"
  by (simp add: activate_close_SignUpModal closeOnClick_def)

section \<open>The modal as a function of its props\<close>






text \<open>
  C10. The children of the modal are the illustration, the heading, the body text, the
  Submit button and the close control, in this order, for either value of the flag: a
  render with another flag is the same wrapper with the same children, and differs in the
  animated style only.
\<close>

theorem modal_children_same_for_both_flags:
  "child_elements (SignUpModal props) =
     [Element ''img'' [] [(''src'', ''../assets/signup.svg''), (''alt'', ''Sign Up!'')]
        None None [],
      Element ''SignUpHeader'' SignUpHeader [] None None [Text ''Sign Up!''],
      Element ''SignUpText'' SignUpText [] None None
        [Text ''Sign up today to get access to cool things!''],
      Element ''PrimaryButton'' PrimaryButton [] None None [Text ''Submit''],
      Element ''CloseModalButton'' CloseModalButton [] None (Some (closeOnClick props))
        [Element ''img'' [] [(''src'', ''../assets/close-icon.svg''), (''alt'', ''Close'')]
           None None []]]
   \<and> child_elements (SignUpModal (props\<lparr>showModal := True\<rparr>))
       = child_elements (SignUpModal (props\<lparr>showModal := False\<rparr>))
   \<and> SignUpModal (props\<lparr>showModal := b\<rparr>)
       = Element ''ModalWrapper'' ModalWrapper []
           (style (SignUpModal (props\<lparr>showModal := b\<rparr>))) None
           (child_elements (SignUpModal props))
   \<and> style (SignUpModal (props\<lparr>showModal := True\<rparr>))
       \<noteq> style (SignUpModal (props\<lparr>showModal := False\<rparr>))"
  by (simp add: SignUpModal_def closeOnClick_showModal_update useSpring_def)

section \<open>The buttons\<close>

lemma resting_PrimaryButton:
  "resting PrimaryButton th = resting Button th @
     [(''background-color'', ''red''), (''border'', ''none''), (''color'', ''white'')]"
  by (simp add: resting_def PrimaryButton_def Button_def styled_def)

lemma hovered_PrimaryButton: "hovered PrimaryButton th = resting PrimaryButton th"
  by (simp add: hovered_def resting_def PrimaryButton_def Button_def styled_def)

lemma resting_SecondaryButton:
  "resting SecondaryButton th = resting Button th @
     [(''background'', ''none''), (''border'', ''1px solid black''),
      (''color'', ''white''), (''color'', ''black''),
      (''transition'', ''background-color 0.2s linear, color 0.2s linear'')]"
  by (simp add: resting_def SecondaryButton_def Button_def styled_def)

lemma hovered_SecondaryButton:
  "hovered SecondaryButton th = resting SecondaryButton th @
     [(''background-color'', ''red''), (''color'', ''white'')]"
  by (simp add: hovered_def resting_def SecondaryButton_def Button_def styled_def)

lemma resting_Button:
  "resting Button th =
     [(''padding'', ''12px 24px''), (''font-size'', ''1rem''), (''border-radius'', ''2px''),
      (''min-width'', ''100px''), (''cursor'', ''pointer''),
      (''font-family'', [CHR 0x27, CHR ''M'', CHR ''e'', CHR ''n'', CHR ''l'', CHR ''o'',
        CHR 0x27, CHR '','', CHR '' '', CHR ''m'', CHR ''o'', CHR ''n'', CHR ''o'', CHR ''s'',
        CHR ''p'', CHR ''a'', CHR ''c'', CHR ''e''])]"
  by (simp add: resting_def Button_def)

lemmas button_declarations =
  resting_PrimaryButton hovered_PrimaryButton resting_SecondaryButton hovered_SecondaryButton
  resting_Button

lemma transitions_of_SecondaryButton:
  "transitions ''background-color 0.2s linear, color 0.2s linear''
     = [[''background-color'', ''0.2s'', ''linear''], [''color'', ''0.2s'', ''linear'']]"
  by (simp add: transitions_def)

text \<open>
  C5, as the code has it. The secondary button declares a transition of its background
  colour and of its text colour, each over 0.2s and linear, and a hover rule that changes
  both; the primary button declares no transition and no hover rule, so the pointer over it
  changes none of its declarations.
\<close>

theorem hover_transition_on_secondary_only:
  "css_get ''transition'' (resting SecondaryButton th)
     = Some ''background-color 0.2s linear, color 0.2s linear''
   \<and> map_option transitions (css_get ''transition'' (resting SecondaryButton th))
       = Some [[''background-color'', ''0.2s'', ''linear''], [''color'', ''0.2s'', ''linear'']]
   \<and> css_get ''transition'' (hovered SecondaryButton th)
       = css_get ''transition'' (resting SecondaryButton th)
   \<and> css_get ''background-color'' (resting SecondaryButton th) = None
   \<and> css_get ''background-color'' (hovered SecondaryButton th) = Some ''red''
   \<and> css_get ''color'' (resting SecondaryButton th) = Some ''black''
   \<and> css_get ''color'' (hovered SecondaryButton th) = Some ''white''
   \<and> css_get ''transition'' (resting PrimaryButton th) = None
   \<and> hovered PrimaryButton th = resting PrimaryButton th"
  by (simp add: button_declarations css_get_def transitions_of_SecondaryButton)

text \<open>
  The claim fails for the primary button: under the light theme it has no transition, and
  its declarations with the pointer over it are those at rest.
\<close>

theorem primary_button_hover_counterexample:
  "css_get ''transition'' (resting PrimaryButton themeLight) = None
   \<and> css_get ''transition'' (hovered PrimaryButton themeLight) = None
   \<and> hovered PrimaryButton themeLight = resting PrimaryButton themeLight"
  by (simp add: button_declarations css_get_def)

text \<open>
  C6. The colours of a button are fixed by its variant. Primary: a red background and white
  text, at rest and under the pointer. Secondary: no background, a black border and black
  text at rest; under the pointer a red background and white text, the primary's colours.
\<close>

theorem button_variant_colors:
  "css_get ''background-color'' (resting PrimaryButton th) = Some ''red''
   \<and> css_get ''color'' (resting PrimaryButton th) = Some ''white''
   \<and> css_get ''background-color'' (hovered PrimaryButton th) = Some ''red''
   \<and> css_get ''color'' (hovered PrimaryButton th) = Some ''white''
   \<and> css_get ''background'' (resting SecondaryButton th) = Some ''none''
   \<and> css_get ''background-color'' (resting SecondaryButton th) = None
   \<and> css_get ''border'' (resting SecondaryButton th) = Some ''1px solid black''
   \<and> css_get ''color'' (resting SecondaryButton th) = Some ''black''
   \<and> css_get ''background-color'' (hovered SecondaryButton th) = Some ''red''
   \<and> css_get ''color'' (hovered SecondaryButton th) = Some ''white''"
  by (simp add: button_declarations css_get_def)

text \<open>
  C9. The secondary button declares its text colour twice, white and then black; the later
  declaration is the one in force, so its text at rest is black and not white.
\<close>

theorem secondary_resting_color_is_black:
  "css_declared ''color'' (resting SecondaryButton th) = [''white'', ''black'']
   \<and> css_get ''color'' (resting SecondaryButton th) = Some ''black''
   \<and> css_get ''color'' (resting SecondaryButton th) \<noteq> Some ''white''"
  by (simp add: button_declarations css_get_def css_declared_def)

section \<open>The theme\<close>

lemma theme_keys:
  "themeLight ''text'' = Some ''#000''"
  "themeLight ''modalBg'' = Some ''#fff''"
  "themeLight ''buttonBorder'' = Some ''#000''"
  "themeDark ''text'' = Some ''#fff''"
  "themeDark ''modalBg'' = Some ''#202023''"
  "themeDark ''buttonBorder'' = Some ''#fff''"
  by (simp_all add: themeLight_def themeDark_def)

lemma pasted_colours:
  "declarations_of ''background-color: #fff'' = [(''background-color'', ''#fff'')]"
  "declarations_of ''background-color: #202023'' = [(''background-color'', ''#202023'')]"
  "declarations_of ''color: #000'' = [(''color'', ''#000'')]"
  "declarations_of ''color: #fff'' = [(''color'', ''#fff'')]"
  by (simp_all add: declarations_of_def declaration_of_def trim_def blank_def)

lemma ModalWrapper_colours:
  "css_get ''background-color'' (resting ModalWrapper themeLight) = Some ''#fff''"
  "css_get ''color'' (resting ModalWrapper themeLight) = Some ''#000''"
  "css_get ''background-color'' (resting ModalWrapper themeDark) = Some ''#202023''"
  "css_get ''color'' (resting ModalWrapper themeDark) = Some ''#fff''"
  by (simp_all add: resting_def ModalWrapper_def theme_keys pasted_colours css_get_def)

lemma ModalWrapper_props:
  "snd (serializeStyles ModalWrapper p) = p"
  by (simp add: ModalWrapper_def split: option.split prod.split)

lemma buttons_any_theme:
  "resting PrimaryButton th = resting PrimaryButton th'"
  "hovered PrimaryButton th = hovered PrimaryButton th'"
  "resting SecondaryButton th = resting SecondaryButton th'"
  "hovered SecondaryButton th = hovered SecondaryButton th'"
  by (simp_all add: button_declarations)

text \<open>
  C7. The code at the dark theme of the lesson, whose \<^verbatim>\<open>text\<close> and
  \<^verbatim>\<open>buttonBorder\<close> are \<^verbatim>\<open>#fff\<close>. The modal follows the theme: its
  wrapper's text colour is the theme's \<^verbatim>\<open>text\<close> and its background the theme's
  \<^verbatim>\<open>modalBg\<close>, under the dark theme and under the light one, and serialising its
  styles leaves the theme as it was. The buttons do not: the secondary button's border and
  text are black and the primary button's text white under the dark theme as under the
  light one, and all their declarations are the same under both.
\<close>

theorem buttons_do_not_follow_theme:
  "themeDark ''text'' = Some ''#fff''
   \<and> themeDark ''buttonBorder'' = Some ''#fff''
   \<and> themeLight ''text'' = Some ''#000''
   \<and> css_get ''color'' (resting SecondaryButton themeDark) = Some ''black''
   \<and> css_get ''border'' (resting SecondaryButton themeDark) = Some ''1px solid black''
   \<and> css_get ''color'' (resting PrimaryButton themeDark) = Some ''white''
   \<and> resting SecondaryButton themeDark = resting SecondaryButton themeLight
   \<and> hovered SecondaryButton themeDark = hovered SecondaryButton themeLight
   \<and> resting PrimaryButton themeDark = resting PrimaryButton themeLight
   \<and> hovered PrimaryButton themeDark = hovered PrimaryButton themeLight
   \<and> css_get ''color'' (resting ModalWrapper themeDark) = Some ''#fff''
   \<and> css_get ''background-color'' (resting ModalWrapper themeDark) = Some ''#202023''
   \<and> css_get ''color'' (resting ModalWrapper themeLight) = Some ''#000''
   \<and> css_get ''background-color'' (resting ModalWrapper themeLight) = Some ''#fff''
   \<and> snd (serializeStyles ModalWrapper \<lparr>theme = themeDark\<rparr>) = \<lparr>theme = themeDark\<rparr>
   \<and> snd (serializeStyles SecondaryButton \<lparr>theme = themeDark\<rparr>) = \<lparr>theme = themeDark\<rparr>"
proof -
  have buttons: "css_get ''color'' (resting SecondaryButton themeDark) = Some ''black''"
    "css_get ''border'' (resting SecondaryButton themeDark) = Some ''1px solid black''"
    "css_get ''color'' (resting PrimaryButton themeDark) = Some ''white''"
    by (simp_all add: button_declarations css_get_def)
  have frame: "snd (serializeStyles SecondaryButton \<lparr>theme = themeDark\<rparr>) = \<lparr>theme = themeDark\<rparr>"
    by (simp add: SecondaryButton_def Button_def styled_def)
  from theme_keys buttons frame ModalWrapper_colours
    ModalWrapper_props [of "\<lparr>theme = themeDark\<rparr>"]
    buttons_any_theme [of themeDark themeLight]
  show ?thesis by blast
qed

end
